theory Spec2Isabelle
  imports Main "HOL-Library.AList" "HOL-Library.Char_ord" "HOL-Library.List_Lexorder"
    "HOL-Library.Multiset"
begin

section \<open>composegen: a compose document from the containers of a Docker host\<close>

text \<open>
  The development follows \<open>pkg/composegen/composegen.go\<close>. Go strings are byte strings
  and are modelled by \<open>string\<close>; their order (\<open><\<close> on Go strings, used by
  \<open>sort.Strings\<close>) is the lexicographic order on bytes, which is the order that
  \<open>Char_ord\<close> and \<open>List_Lexorder\<close> put on \<open>char list\<close>. A Go slice is a list (a nil
  slice and an empty slice are both \<open>[]\<close>: the code never tells them apart). A Go map
  is an association list with at most one pair per key; \<open>m[k] = v\<close> is
  \<open>AList.update k v m\<close>, a lookup is \<open>map_of m k\<close>, and ranging over the map visits
  the pairs in the order of the list.
\<close>

subsection \<open>The records of the Docker API that the code reads\<close>

text \<open>\<open>types.MountPoint\<close>: the fields read by \<open>generateVolumes\<close>.\<close>

record MountPoint =
  mp_Type :: string
  mp_Name :: string
  mp_Source :: string
  mp_Destination :: string

text \<open>\<open>nat.PortBinding\<close>.\<close>

record PortBinding =
  HostIP :: string
  HostPort :: string

text \<open>
  \<open>RestartPolicy.Name\<close> is declared in the Docker API package, outside this repository:
  as \<open>string\<close> in its older versions and as the defined type \<open>RestartPolicyMode\<close> in
  the newer ones. The type has both; the versions of the package that declare
  \<open>container.ListOptions\<close>, which the code uses, have \<open>RestartPolicyMode\<close>, and so have
  the examples.
\<close>

datatype restart_name = RestartString string | RestartPolicyMode string

text \<open>
  \<open>container.Config\<close>, \<open>container.HostConfig\<close> and \<open>types.ContainerJSON\<close>, with the
  fields that the code reads. The pointers \<open>Config\<close>, \<open>HostConfig\<close> and
  \<open>NetworkSettings\<close> of an inspection record are taken to be set, as they are in every
  answer of the runtime; of \<open>NetworkSettings.Networks\<close> only the keys are read.
\<close>

record container_Config =
  Image :: string
  Labels :: "(string \<times> string) list"
  Env :: "string list"
  Cmd :: "string list"
  Entrypoint :: "string list"
  WorkingDir :: string
  User :: string
  Hostname :: string
  Domainname :: string
  Tty :: bool
  OpenStdin :: bool

record container_HostConfig =
  NetworkMode :: string
  PortBindings :: "(string \<times> PortBinding list) list"
  Privileged :: bool
  RestartPolicy_Name :: restart_name

record ContainerJSON =
  cj_Name :: string
  Config :: container_Config
  HostConfig :: container_HostConfig
  NetworkSettings_Networks :: "string list"
  Mounts :: "MountPoint list"

text \<open>\<open>types.Container\<close>, the summary returned by a container listing.\<close>

record Container =
  ID :: string
  Names :: "string list"

text \<open>\<open>network.IPAMConfig\<close> and \<open>types.NetworkResource\<close>.\<close>

record IPAMConfig =
  Subnet :: string
  IPRange :: string
  Gateway :: string
  AuxAddress :: "(string \<times> string) list"

record NetworkResource =
  nr_Name :: string
  Scope :: string
  Driver :: string
  EnableIPv6 :: bool
  Internal :: bool
  IPAM_Driver :: string
  IPAM_Config :: "IPAMConfig list"

subsection \<open>Values of type \<open>interface{}\<close>\<close>

text \<open>
  An interface value carries its dynamic type. There is one constructor for each dynamic
  type that occurs in the program: the nil interface, \<open>string\<close>, \<open>int\<close>, \<open>bool\<close>, a
  defined string type (its name and its value), \<open>[]string\<close>, \<open>strslice.StrSlice\<close>,
  \<open>map[string]string\<close>, \<open>[]network.IPAMConfig\<close>, \<open>[]interface{}\<close> and
  \<open>map[string]interface{}\<close>.
\<close>

datatype iface =
    VNil
  | VString string
  | VInt int
  | VBool bool
  | VNamedString string string
  | VStringSlice "string list"
  | VStrSlice "string list"
  | VStringMap "(string \<times> string) list"
  | VIPAMConfigs "IPAMConfig list"
  | VIfaceSlice "iface list"
  | VIfaceMap "(string \<times> iface) list"

datatype gotype =
    TNil | TString | TInt | TBool | TNamedString string | TStringSlice | TStrSlice
  | TStringMap | TIPAMConfigs | TIfaceSlice | TIfaceMap

fun dynamicType :: "iface \<Rightarrow> gotype" where
  "dynamicType VNil = TNil"
| "dynamicType (VString s) = TString"
| "dynamicType (VInt i) = TInt"
| "dynamicType (VBool b) = TBool"
| "dynamicType (VNamedString t s) = TNamedString t"
| "dynamicType (VStringSlice xs) = TStringSlice"
| "dynamicType (VStrSlice xs) = TStrSlice"
| "dynamicType (VStringMap m) = TStringMap"
| "dynamicType (VIPAMConfigs cs) = TIPAMConfigs"
| "dynamicType (VIfaceSlice xs) = TIfaceSlice"
| "dynamicType (VIfaceMap m) = TIfaceMap"

text \<open>Slice and map types are not comparable in Go.\<close>

fun comparable :: "gotype \<Rightarrow> bool" where
  "comparable TStringSlice = False"
| "comparable TStrSlice = False"
| "comparable TStringMap = False"
| "comparable TIPAMConfigs = False"
| "comparable TIfaceSlice = False"
| "comparable TIfaceMap = False"
| "comparable t = True"

text \<open>
  \<open>x == y\<close> on interface values: false when the dynamic types differ, the equality of
  the values when the common dynamic type is comparable, and a run-time panic (\<open>None\<close>)
  when it is not.
\<close>

definition ifaceEq :: "iface \<Rightarrow> iface \<Rightarrow> bool option" where
  "ifaceEq x y =
     (if dynamicType x \<noteq> dynamicType y then Some False
      else if comparable (dynamicType x) then Some (x = y)
      else None)"

type_synonym attrs = "(string \<times> iface) list"
type_synonym attrs_map = "(string \<times> attrs) list"

record Config =
  Version :: string
  Services :: attrs_map
  Networks :: attrs_map
  Volumes :: attrs_map

subsection \<open>The collaborators\<close>

text \<open>
  The Docker client is the record of the answers of the runtime to the four queries that
  the program makes; \<open>Inl\<close> is the error text of a failed query. The runtime is taken
  as it stands during one generation: a query has the same answer each time it is made.
\<close>

record client =
  ContainerList :: "string + Container list"
  ContainerInspect :: "string \<Rightarrow> string + ContainerJSON"
  NetworkList :: "string + NetworkResource list"
  NetworkInspect :: "string \<Rightarrow> string + NetworkResource"

text \<open>
  The functions of other packages that the program calls are parameters of the model:
  \<open>regexp.Compile\<close> and \<open>(*Regexp).MatchString\<close>, \<open>NetworkMode.IsDefault\<close> of the
  Docker API, and \<open>yaml.Marshal\<close> at type \<open>Config\<close>.
\<close>

record 're packages =
  Compile :: "string \<Rightarrow> string + 're"
  MatchString :: "'re \<Rightarrow> string \<Rightarrow> bool"
  IsDefault :: "string \<Rightarrow> bool"
  Marshal :: "Config \<Rightarrow> string + string"

text \<open>
  What a run does besides returning: the queries sent to the runtime and the lines
  written with \<open>log.Printf\<close>, in order.
\<close>

datatype event =
    ContainerListCall
  | ContainerInspectCall string
  | NetworkListCall
  | NetworkInspectCall string
  | LogPrintf string

text \<open>
  Errors: the error of a client query, and the errors made with \<open>fmt.Errorf\<close>, each
  holding the text that its format verb inserts.
\<close>

datatype error =
    ClientError string
  | ContainerNotFound string
  | InvalidFilterRegex string
  | NetworkInfoError string
  | MarshalError string

fun errorText :: "error \<Rightarrow> string" where
  "errorText (ClientError msg) = msg"
| "errorText (ContainerNotFound cname) = ''container '' @ cname @ '' not found''"
| "errorText (InvalidFilterRegex msg) = ''invalid filter regex: '' @ msg"
| "errorText (NetworkInfoError msg) = ''error generating network info: '' @ msg"
| "errorText (MarshalError msg) = ''error marshaling to YAML: '' @ msg"

text \<open>A call returns a value, returns an error, or panics.\<close>

datatype 'a outcome = Ok 'a | Err error | Panic

subsection \<open>generateVolumes\<close>

text \<open>The body of the loop of \<open>generateVolumes\<close>: the entry of one mount.\<close>

definition volumeEntry :: "bool \<Rightarrow> MountPoint \<Rightarrow> string" where
  "volumeEntry createVolumes mount =
     (if mp_Type mount = ''volume'' \<and> createVolumes
        then mp_Name mount @ '':'' @ mp_Destination mount
      else if mp_Type mount = ''bind''
        then mp_Source mount @ '':'' @ mp_Destination mount
      else '''')"

fun appendVolumes :: "bool \<Rightarrow> MountPoint list \<Rightarrow> string list \<Rightarrow> string list" where
  "appendVolumes createVolumes [] volumes = volumes"
| "appendVolumes createVolumes (mount # mounts) volumes =
     appendVolumes createVolumes mounts (volumes @ [volumeEntry createVolumes mount])"

definition generateVolumes :: "ContainerJSON \<Rightarrow> bool \<Rightarrow> string list" where
  "generateVolumes cattrs createVolumes =
     sort (appendVolumes createVolumes (Mounts cattrs) [])"

subsection \<open>isIgnoredValue\<close>

definition ignoreValues :: "iface list" where
  "ignoreValues =
     [VNil, VString '''', VIfaceSlice [], VString ''null'', VIfaceMap [], VString ''default'',
      VInt 0, VString '','', VString ''no'']"

text \<open>The scan of \<open>isIgnoredValue\<close> over a list of sentinels; \<open>None\<close> is the panic of \<open>==\<close>.\<close>

fun isIgnoredLoop :: "iface list \<Rightarrow> iface \<Rightarrow> bool option" where
  "isIgnoredLoop [] v = Some False"
| "isIgnoredLoop (iv # ivs) v =
     (case ifaceEq v iv of
        None \<Rightarrow> None
      | Some True \<Rightarrow> Some True
      | Some False \<Rightarrow> isIgnoredLoop ivs v)"

definition isIgnoredValue :: "iface \<Rightarrow> bool option" where
  "isIgnoredValue v = isIgnoredLoop ignoreValues v"

subsection \<open>listContainerNames\<close>

text \<open>
  \<open>container.Names[0][1:]\<close>: \<open>None\<close> is the panic of indexing an empty \<open>Names\<close> or of
  slicing an empty name.
\<close>

definition displayName :: "Container \<Rightarrow> string option" where
  "displayName c =
     (case Names c of
        [] \<Rightarrow> None
      | n # _ \<Rightarrow> (case n of [] \<Rightarrow> None | _ # rest \<Rightarrow> Some rest))"

fun appendNames :: "Container list \<Rightarrow> string list \<Rightarrow> string list option" where
  "appendNames [] names = Some names"
| "appendNames (c # cs) names =
     (case displayName c of
        None \<Rightarrow> None
      | Some containerName \<Rightarrow> appendNames cs (names @ [containerName]))"

definition listContainerNames :: "client \<Rightarrow> string list outcome \<times> event list" where
  "listContainerNames cli =
     (case ContainerList cli of
        Inl e \<Rightarrow> (Err (ClientError e), [ContainerListCall])
      | Inr containers \<Rightarrow>
          (case appendNames containers [] of
             None \<Rightarrow> (Panic, [ContainerListCall])
           | Some names \<Rightarrow> (Ok names, [ContainerListCall])))"

subsection \<open>getNetworkMode and getPorts\<close>

text \<open>
  Ranging over \<open>NetworkSettings.Networks\<close> and returning at the first iteration yields
  the first key in iteration order, if there is one.
\<close>

definition getNetworkMode :: "'re packages \<Rightarrow> ContainerJSON \<Rightarrow> string" where
  "getNetworkMode pk cattrs =
     (if IsDefault pk (NetworkMode (HostConfig cattrs))
      then (case NetworkSettings_Networks cattrs of
              name # _ \<Rightarrow> name
            | [] \<Rightarrow> NetworkMode (HostConfig cattrs))
      else NetworkMode (HostConfig cattrs))"

fun bindingPorts :: "string \<Rightarrow> PortBinding list \<Rightarrow> string list \<Rightarrow> string list" where
  "bindingPorts port [] ports = ports"
| "bindingPorts port (binding # bindings) ports =
     bindingPorts port bindings
       (ports @ [(if HostIP binding \<noteq> '''' then HostIP binding @ '':'' @ HostPort binding
                  else HostPort binding) @ '':'' @ port])"

fun appendPorts :: "(string \<times> PortBinding list) list \<Rightarrow> string list \<Rightarrow> string list" where
  "appendPorts [] ports = ports"
| "appendPorts ((port, bindings) # rest) ports = appendPorts rest (bindingPorts port bindings ports)"

definition getPorts :: "ContainerJSON \<Rightarrow> string list" where
  "getPorts cattrs = appendPorts (PortBindings (HostConfig cattrs)) []"

subsection \<open>generate\<close>

text \<open>
  The search for the container ID: \<open>None\<close> is the panic of \<open>container.Names[0][1:]\<close>,
  the empty ID is the initial value of \<open>containerID\<close>.
\<close>

fun findContainerID :: "Container list \<Rightarrow> string \<Rightarrow> string option" where
  "findContainerID [] cname = Some ''''"
| "findContainerID (c # cs) cname =
     (case displayName c of
        None \<Rightarrow> None
      | Some n \<Rightarrow> if n = cname \<or> ID c = cname then Some (ID c) else findContainerID cs cname)"

fun boxRestartName :: "restart_name \<Rightarrow> iface" where
  "boxRestartName (RestartString s) = VString s"
| "boxRestartName (RestartPolicyMode s) = VNamedString ''container.RestartPolicyMode'' s"

text \<open>The map \<open>values\<close>; \<open>name\<close> is \<open>cattrs.Name[1:]\<close>.\<close>

definition containerValues :: "'re packages \<Rightarrow> ContainerJSON \<Rightarrow> bool \<Rightarrow> string \<Rightarrow> attrs" where
  "containerValues pk cattrs createVolumes name =
     [(''container_name'', VString name),
      (''image'', VString (Image (Config cattrs))),
      (''labels'', VStringMap (Labels (Config cattrs))),
      (''volumes'', VStringSlice (generateVolumes cattrs createVolumes)),
      (''environment'', VStringSlice (Env (Config cattrs))),
      (''command'', VStrSlice (Cmd (Config cattrs))),
      (''entrypoint'', VStrSlice (Entrypoint (Config cattrs))),
      (''working_dir'', VString (WorkingDir (Config cattrs))),
      (''user'', VString (User (Config cattrs))),
      (''hostname'', VString (Hostname (Config cattrs))),
      (''domainname'', VString (Domainname (Config cattrs))),
      (''network_mode'', VString (getNetworkMode pk cattrs)),
      (''ports'', VStringSlice (getPorts cattrs)),
      (''privileged'', VBool (Privileged (HostConfig cattrs))),
      (''restart'', boxRestartName (RestartPolicy_Name (HostConfig cattrs))),
      (''tty'', VBool (Tty (Config cattrs))),
      (''stdin_open'', VBool (OpenStdin (Config cattrs)))]"

text \<open>The loop over the networks of the container: a failed inspection is logged and skipped.\<close>

fun networkStubs :: "client \<Rightarrow> string list \<Rightarrow> attrs_map \<Rightarrow> attrs_map \<times> event list" where
  "networkStubs cli [] networks = (networks, [])"
| "networkStubs cli (networkName # rest) networks =
     (case NetworkInspect cli networkName of
        Inl e \<Rightarrow>
          (let (r, evs) = networkStubs cli rest networks
           in (r, [NetworkInspectCall networkName,
                   LogPrintf (''Error inspecting network '' @ networkName @ '': '' @ e)] @ evs))
      | Inr networkResource \<Rightarrow>
          (let (r, evs) = networkStubs cli rest
                 (AList.update networkName
                    [(''external'', VBool (\<not> Internal networkResource)),
                     (''name'', VString networkName)] networks)
           in (r, NetworkInspectCall networkName # evs)))"

text \<open>The loop that copies the values that are not ignored into \<open>ct\<close>.\<close>

fun dropIgnored :: "attrs \<Rightarrow> attrs \<Rightarrow> attrs option" where
  "dropIgnored [] ct = Some ct"
| "dropIgnored ((key, v) # rest) ct =
     (case isIgnoredValue v of
        None \<Rightarrow> None
      | Some ignored \<Rightarrow> dropIgnored rest (if ignored then ct else AList.update key v ct))"

definition generate ::
  "'re packages \<Rightarrow> client \<Rightarrow> string \<Rightarrow> bool \<Rightarrow>
     (attrs_map \<times> attrs_map \<times> attrs_map) outcome \<times> event list"
where
  "generate pk cli cname createVolumes =
     (case ContainerList cli of
        Inl e \<Rightarrow> (Err (ClientError e), [ContainerListCall])
      | Inr containers \<Rightarrow>
          (case findContainerID containers cname of
             None \<Rightarrow> (Panic, [ContainerListCall])
           | Some containerID \<Rightarrow>
               if containerID = '''' then (Err (ContainerNotFound cname), [ContainerListCall])
               else
                 (case ContainerInspect cli containerID of
                    Inl e \<Rightarrow>
                      (Err (ClientError e), [ContainerListCall, ContainerInspectCall containerID])
                  | Inr cattrs \<Rightarrow>
                      (case cj_Name cattrs of
                         [] \<Rightarrow> (Panic, [ContainerListCall, ContainerInspectCall containerID])
                       | _ # name \<Rightarrow>
                           (let values = containerValues pk cattrs createVolumes name;
                                (networks, evs) =
                                   networkStubs cli (NetworkSettings_Networks cattrs) []
                            in case dropIgnored values [] of
                                 None \<Rightarrow>
                                   (Panic,
                                    [ContainerListCall, ContainerInspectCall containerID] @ evs)
                               | Some ct \<Rightarrow>
                                   (Ok (AList.update name ct [], networks, []),
                                    [ContainerListCall, ContainerInspectCall containerID] @ evs))))))"

subsection \<open>generateNetworkInfo\<close>

fun appendNetworkNames :: "NetworkResource list \<Rightarrow> string list \<Rightarrow> string list" where
  "appendNetworkNames [] names = names"
| "appendNetworkNames (network # rest) names = appendNetworkNames rest (names @ [nr_Name network])"

definition listNetworkNames :: "client \<Rightarrow> string list outcome \<times> event list" where
  "listNetworkNames cli =
     (case NetworkList cli of
        Inl e \<Rightarrow> (Err (ClientError e), [NetworkListCall])
      | Inr networks \<Rightarrow> (Ok (appendNetworkNames networks []), [NetworkListCall]))"

text \<open>The map \<open>values\<close> of one network.\<close>

definition networkDetail :: "NetworkResource \<Rightarrow> attrs" where
  "networkDetail networkResource =
     [(''name'', VString (nr_Name networkResource)),
      (''scope'', VString (Scope networkResource)),
      (''driver'', VString (Driver networkResource)),
      (''enable_ipv6'', VBool (EnableIPv6 networkResource)),
      (''internal'', VBool (Internal networkResource)),
      (''ipam'', VIfaceMap
         [(''driver'', VString (IPAM_Driver networkResource)),
          (''config'', VIPAMConfigs (IPAM_Config networkResource))])]"

text \<open>The loop over the network names: the first failed inspection is returned.\<close>

fun inspectNetworks :: "client \<Rightarrow> string list \<Rightarrow> attrs_map \<Rightarrow> attrs_map outcome \<times> event list" where
  "inspectNetworks cli [] networks = (Ok networks, [])"
| "inspectNetworks cli (networkName # rest) networks =
     (case NetworkInspect cli networkName of
        Inl e \<Rightarrow> (Err (ClientError e), [NetworkInspectCall networkName])
      | Inr networkResource \<Rightarrow>
          (let (r, evs) = inspectNetworks cli rest
                 (AList.update networkName (networkDetail networkResource) networks)
           in (r, NetworkInspectCall networkName # evs)))"

definition generateNetworkInfo :: "client \<Rightarrow> attrs_map outcome \<times> event list" where
  "generateNetworkInfo cli =
     (case listNetworkNames cli of
        (Ok networkNames, evs) \<Rightarrow>
          (let (r, evs') = inspectNetworks cli networkNames [] in (r, evs @ evs'))
      | (Err e, evs) \<Rightarrow> (Err e, evs)
      | (Panic, evs) \<Rightarrow> (Panic, evs))"

subsection \<open>GenerateComposeFile\<close>

text \<open>The filter block: with a non-empty filter, the names that the compiled filter matches.\<close>

fun appendMatching :: "'re packages \<Rightarrow> 're \<Rightarrow> string list \<Rightarrow> string list \<Rightarrow> string list" where
  "appendMatching pk filterRegex [] filtered = filtered"
| "appendMatching pk filterRegex (name # rest) filtered =
     appendMatching pk filterRegex rest
       (if MatchString pk filterRegex name then filtered @ [name] else filtered)"

definition filterNames :: "'re packages \<Rightarrow> string \<Rightarrow> string list \<Rightarrow> string list outcome" where
  "filterNames pk containerFilter containerNames =
     (if containerFilter \<noteq> '''' then
        (case Compile pk containerFilter of
           Inl e \<Rightarrow> Err (InvalidFilterRegex e)
         | Inr filterRegex \<Rightarrow> Ok (appendMatching pk filterRegex containerNames []))
      else Ok containerNames)"

text \<open>\<open>for key, value := range src { dst[key] = value }\<close>.\<close>

fun mergeInto :: "attrs_map \<Rightarrow> attrs_map \<Rightarrow> attrs_map" where
  "mergeInto dst [] = dst"
| "mergeInto dst ((key, v) # rest) = mergeInto (AList.update key v dst) rest"

text \<open>
  The loop over the container names, on the three accumulators \<open>structure\<close>,
  \<open>networks\<close> and \<open>volumes\<close>. An error of \<open>generate\<close> is logged and the loop goes on;
  \<open>None\<close> is a panic of \<open>generate\<close>.
\<close>

fun processContainers ::
  "'re packages \<Rightarrow> client \<Rightarrow> bool \<Rightarrow> string list \<Rightarrow> attrs_map \<times> attrs_map \<times> attrs_map \<Rightarrow>
     (attrs_map \<times> attrs_map \<times> attrs_map) option \<times> event list"
where
  "processContainers pk cli createVolumes [] acc = (Some acc, [])"
| "processContainers pk cli createVolumes (cname # rest) (structure, networks, volumes) =
     (case generate pk cli cname createVolumes of
        (Ok (cfile, cNetworks, cVolumes), evs) \<Rightarrow>
          (let (r, evs') = processContainers pk cli createVolumes rest
                 (mergeInto structure cfile, mergeInto networks cNetworks,
                  mergeInto volumes cVolumes)
           in (r, evs @ evs'))
      | (Err err, evs) \<Rightarrow>
          (let (r, evs') = processContainers pk cli createVolumes rest
                 (structure, networks, volumes)
           in (r, evs @ [LogPrintf (''Error generating config for container '' @ cname @ '': ''
                                      @ errorText err)] @ evs'))
      | (Panic, evs) \<Rightarrow> (None, evs))"

text \<open>\<open>GenerateComposeFile\<close> up to the value of \<open>config\<close>.\<close>

definition composeConfig ::
  "'re packages \<Rightarrow> client \<Rightarrow> bool \<Rightarrow> string \<Rightarrow> bool \<Rightarrow> Config outcome \<times> event list"
where
  "composeConfig pk cli includeAllContainers containerFilter createVolumes =
     (case listContainerNames cli of
        (Err e, evs) \<Rightarrow> (Err e, evs)
      | (Panic, evs) \<Rightarrow> (Panic, evs)
      | (Ok containerNames, evs) \<Rightarrow>
          (case filterNames pk containerFilter containerNames of
             Err e \<Rightarrow> (Err e, evs)
           | Panic \<Rightarrow> (Panic, evs)
           | Ok filtered \<Rightarrow>
               (case processContainers pk cli createVolumes filtered ([], [], []) of
                  (None, evs') \<Rightarrow> (Panic, evs @ evs')
                | (Some (structure, networks, volumes), evs') \<Rightarrow>
                    if includeAllContainers then
                      (case generateNetworkInfo cli of
                         (Err e, evs'') \<Rightarrow>
                           (Err (NetworkInfoError (errorText e)), evs @ evs' @ evs'')
                       | (Panic, evs'') \<Rightarrow> (Panic, evs @ evs' @ evs'')
                       | (Ok hostNetworks, evs'') \<Rightarrow>
                           (Ok \<lparr>Version = ''3.6'', Services = structure,
                                Networks = hostNetworks, Volumes = volumes\<rparr>,
                            evs @ evs' @ evs''))
                    else
                      (Ok \<lparr>Version = ''3.6'', Services = structure, Networks = networks,
                           Volumes = volumes\<rparr>,
                       evs @ evs'))))"

definition render :: "'re packages \<Rightarrow> Config \<Rightarrow> string outcome" where
  "render pk config =
     (case Marshal pk config of
        Inl e \<Rightarrow> Err (MarshalError e)
      | Inr out \<Rightarrow> Ok out)"

definition GenerateComposeFile ::
  "'re packages \<Rightarrow> client \<Rightarrow> bool \<Rightarrow> string \<Rightarrow> bool \<Rightarrow> string outcome \<times> event list"
where
  "GenerateComposeFile pk cli includeAllContainers containerFilter createVolumes =
     (case composeConfig pk cli includeAllContainers containerFilter createVolumes of
        (Ok config, evs) \<Rightarrow> (render pk config, evs)
      | (Err e, evs) \<Rightarrow> (Err e, evs)
      | (Panic, evs) \<Rightarrow> (Panic, evs))"

subsection \<open>Example data\<close>

definition dataMount :: MountPoint where
  "dataMount = \<lparr>mp_Type = ''volume'', mp_Name = ''pgdata'', mp_Source = ''/var/lib/docker/volumes/pgdata/_data'',
     mp_Destination = ''/var/lib/postgresql/data''\<rparr>"

definition confMount :: MountPoint where
  "confMount = \<lparr>mp_Type = ''bind'', mp_Name = '''', mp_Source = ''/etc/app'',
     mp_Destination = ''/conf''\<rparr>"

definition tmpMount :: MountPoint where
  "tmpMount = \<lparr>mp_Type = ''tmpfs'', mp_Name = '''', mp_Source = '''',
     mp_Destination = ''/run''\<rparr>"

definition plainConfig :: container_Config where
  "plainConfig = \<lparr>Image = ''postgres:16'', Labels = [], Env = [], Cmd = [''postgres''],
     Entrypoint = [''docker-entrypoint.sh''], WorkingDir = '''', User = '''',
     Hostname = ''db1'', Domainname = '''', Tty = False, OpenStdin = False\<rparr>"

definition plainHostConfig :: container_HostConfig where
  "plainHostConfig = \<lparr>NetworkMode = ''default'', PortBindings = [], Privileged = False,
     RestartPolicy_Name = RestartPolicyMode ''no''\<rparr>"

definition db1JSON :: ContainerJSON where
  "db1JSON = \<lparr>cj_Name = ''/db1'', Config = plainConfig, HostConfig = plainHostConfig,
     NetworkSettings_Networks = [''bridge''], Mounts = [dataMount, tmpMount, confMount]\<rparr>"

definition webConfig :: container_Config where
  "webConfig = \<lparr>Image = ''nginx:1.27'', Labels = [], Env = [], Cmd = [''nginx''],
     Entrypoint = [], WorkingDir = '''', User = '''', Hostname = ''web'', Domainname = '''',
     Tty = False, OpenStdin = False\<rparr>"

definition web1JSON :: ContainerJSON where
  "web1JSON = \<lparr>cj_Name = ''/web1'', Config = webConfig, HostConfig = plainHostConfig,
     NetworkSettings_Networks = [''bridge''], Mounts = []\<rparr>"

definition web2JSON :: ContainerJSON where
  "web2JSON = \<lparr>cj_Name = ''/web2'', Config = webConfig, HostConfig = plainHostConfig,
     NetworkSettings_Networks = [''bridge''], Mounts = [confMount]\<rparr>"

definition hostContainers :: "Container list" where
  "hostContainers =
     [\<lparr>ID = ''a1'', Names = [''/web1'']\<rparr>, \<lparr>ID = ''b2'', Names = [''/web2'']\<rparr>,
      \<lparr>ID = ''c3'', Names = [''/db1'']\<rparr>]"

definition bridgeNet :: NetworkResource where
  "bridgeNet = \<lparr>nr_Name = ''bridge'', Scope = ''local'', Driver = ''bridge'',
     EnableIPv6 = False, Internal = False, IPAM_Driver = ''default'',
     IPAM_Config = [\<lparr>Subnet = ''172.17.0.0/16'', IPRange = '''', Gateway = ''172.17.0.1'',
       AuxAddress = []\<rparr>]\<rparr>"

definition backendNet :: NetworkResource where
  "backendNet = \<lparr>nr_Name = ''backend'', Scope = ''local'', Driver = ''bridge'',
     EnableIPv6 = False, Internal = True, IPAM_Driver = ''default'', IPAM_Config = []\<rparr>"

text \<open>
  A host with three containers and two networks. The container \<open>db1\<close> is listed but its
  inspection fails: it was removed in between.
\<close>

definition hostClient :: client where
  "hostClient =
     \<lparr>ContainerList = Inr hostContainers,
      ContainerInspect = (\<lambda>containerID.
         if containerID = ''a1'' then Inr web1JSON
         else if containerID = ''b2'' then Inr web2JSON
         else Inl (''No such container: '' @ containerID)),
      NetworkList = Inr [bridgeNet, backendNet],
      NetworkInspect = (\<lambda>networkName.
         if networkName = ''bridge'' then Inr bridgeNet
         else if networkName = ''backend'' then Inr backendNet
         else Inl (''network '' @ networkName @ '' not found''))\<rparr>"

text \<open>The same host when the network \<open>backend\<close> cannot be inspected.\<close>

definition brokenNetworkClient :: client where
  "brokenNetworkClient =
     hostClient\<lparr>NetworkInspect := (\<lambda>networkName.
         if networkName = ''bridge'' then Inr bridgeNet
         else Inl (''network '' @ networkName @ '' not found''))\<rparr>"



text \<open>A runtime that cannot be reached.\<close>

definition downClient :: client where
  "downClient =
     \<lparr>ContainerList = Inl ''Cannot connect to the Docker daemon'',
      ContainerInspect = (\<lambda>containerID. Inl ''Cannot connect to the Docker daemon''),
      NetworkList = Inl ''Cannot connect to the Docker daemon'',
      NetworkInspect = (\<lambda>networkName. Inl ''Cannot connect to the Docker daemon'')\<rparr>"

text \<open>
  Stand-ins for the other packages, for the examples only. The regular expressions are
  the literal ones, with an optional \<open>^\<close> in front: a pattern with any other
  metacharacter is refused, which is what \<open>regexp.Compile\<close> does with \<open>(\<close>; a literal
  matches anywhere in the name, and after \<open>^\<close> at its start. The rendering prints the
  version and the names of the services.
\<close>

fun hasSubstring :: "string \<Rightarrow> string \<Rightarrow> bool" where
  "hasSubstring lit [] = (lit = [])"
| "hasSubstring lit (c # s) = (take (length lit) (c # s) = lit \<or> hasSubstring lit s)"

definition literalCompile :: "string \<Rightarrow> string + string" where
  "literalCompile p =
     (if list_ex (\<lambda>c. c \<in> set ''.+*?()|[]{}$^'') (if p \<noteq> [] \<and> hd p = CHR ''^'' then tl p else p)
      then Inl (''error parsing regexp: '' @ p)
      else Inr p)"

definition literalMatch :: "string \<Rightarrow> string \<Rightarrow> bool" where
  "literalMatch re s =
     (if re \<noteq> [] \<and> hd re = CHR ''^'' then take (length (tl re)) s = tl re
      else hasSubstring re s)"

definition namesMarshal :: "Config \<Rightarrow> string + string" where
  "namesMarshal config =
     Inr (''version: '' @ Version config @ '' services:''
          @ concat (map (\<lambda>(name, ct). '' '' @ name) (Services config)))"

definition examplePackages :: "string packages" where
  "examplePackages =
     \<lparr>Compile = literalCompile, MatchString = literalMatch,
      IsDefault = (\<lambda>mode. mode = ''default''), Marshal = namesMarshal\<rparr>"

section \<open>Properties\<close>

subsection \<open>Mount entries\<close>

lemma appendVolumes_map:
  "appendVolumes createVolumes mounts volumes = volumes @ map (volumeEntry createVolumes) mounts"
  by (induction mounts arbitrary: volumes) simp_all

lemma generateVolumes_sort_map:
  "generateVolumes cattrs createVolumes = sort (map (volumeEntry createVolumes) (Mounts cattrs))"
  by (simp add: generateVolumes_def appendVolumes_map)

lemma volumeEntry_nonempty:
  "volumeEntry createVolumes mount \<noteq> [] \<longleftrightarrow>
     mp_Type mount = ''bind'' \<or> (mp_Type mount = ''volume'' \<and> createVolumes)"
  by (simp add: volumeEntry_def)

lemma sorted_empty_strings_first:
  fixes xs :: "string list"
  shows "sorted xs \<Longrightarrow> xs = filter (\<lambda>x. x = []) xs @ filter (\<lambda>x. x \<noteq> []) xs"
proof (induction xs)
  case Nil
  then show ?case by simp
next
  case (Cons x xs)
  show ?case
  proof (cases "x = []")
    case True
    with Cons show ?thesis by simp
  next
    case False
    from Cons.prems have "\<forall>y\<in>set xs. x \<le> y" by simp
    with False have "\<forall>y\<in>set xs. y \<noteq> []" by auto
    then have "filter (\<lambda>y. y = []) xs = []" and "filter (\<lambda>y. y \<noteq> []) xs = xs"
      by (simp_all add: filter_empty_conv)
    with False show ?thesis by simp
  qed
qed

lemma filter_eq_replicate:
  "filter (\<lambda>x. x = a) xs = replicate (length (filter (\<lambda>x. x = a) xs)) a"
  by (induction xs) simp_all

text \<open>
  Claim C2. The list returned by \<open>generateVolumes\<close> holds one entry for each mount of the
  container. The entry of a mount of type \<open>volume\<close> is \<open><volume-name>:<destination>\<close>
  when \<open>createVolumes\<close> is enabled and the empty entry when it is disabled; the entry of a
  mount of type \<open>bind\<close> is the same with and without the flag.
\<close>

theorem volume_mount_entry:
  "mset (generateVolumes cattrs createVolumes) =
     image_mset (volumeEntry createVolumes) (mset (Mounts cattrs))
   \<and> (mp_Type m = ''volume'' \<longrightarrow>
        volumeEntry True m = mp_Name m @ '':'' @ mp_Destination m \<and> volumeEntry False m = '''')
   \<and> (mp_Type m = ''bind'' \<longrightarrow> volumeEntry True m = volumeEntry False m)
   \<and> (m \<in> set (Mounts cattrs) \<and> mp_Type m = ''volume'' \<longrightarrow>
        mp_Name m @ '':'' @ mp_Destination m \<in> set (generateVolumes cattrs True)
        \<and> '''' \<in> set (generateVolumes cattrs False))"
proof -
  have entries: "\<And>flag. m \<in> set (Mounts cattrs) \<Longrightarrow>
      volumeEntry flag m \<in> set (generateVolumes cattrs flag)"
    by (simp add: generateVolumes_sort_map)
  have volume: "mp_Type m = ''volume'' \<longrightarrow>
      volumeEntry True m = mp_Name m @ '':'' @ mp_Destination m \<and> volumeEntry False m = ''''"
    by (simp add: volumeEntry_def)
  have bind: "mp_Type m = ''bind'' \<longrightarrow> volumeEntry True m = volumeEntry False m"
    by (simp add: volumeEntry_def)
  have "mset (generateVolumes cattrs createVolumes) =
      image_mset (volumeEntry createVolumes) (mset (Mounts cattrs))"
    by (simp add: generateVolumes_sort_map)
  with volume bind entries [of True] entries [of False] show ?thesis
    by metis
qed

theorem volume_mount_entry_witness:
  "mp_Type dataMount = ''volume''
   \<and> volumeEntry True dataMount = ''pgdata:/var/lib/postgresql/data''
   \<and> volumeEntry False dataMount = ''''
   \<and> mp_Type confMount = ''bind''
   \<and> volumeEntry True confMount = volumeEntry False confMount
   \<and> mset (generateVolumes db1JSON True) =
       {#''pgdata:/var/lib/postgresql/data'', '''', ''/etc/app:/conf''#}
   \<and> mset (generateVolumes db1JSON False) = {#'''', '''', ''/etc/app:/conf''#}"
  using volume_mount_entry [of db1JSON True dataMount]
    volume_mount_entry [of db1JSON False confMount]
  by (simp add: dataMount_def confMount_def tmpMount_def db1JSON_def volumeEntry_def)

text \<open>
  Claim C3. The entry of a mount of type \<open>bind\<close> is \<open><host-source-path>:<destination>\<close>
  whatever the value of \<open>createVolumes\<close>, and the list of the entries of a container is
  returned sorted in the lexicographic order of strings.
\<close>

theorem bind_mount_entry_sorted:
  "sorted (generateVolumes cattrs createVolumes)
   \<and> mset (generateVolumes cattrs createVolumes) =
       image_mset (volumeEntry createVolumes) (mset (Mounts cattrs))
   \<and> (mp_Type m = ''bind'' \<longrightarrow>
        volumeEntry createVolumes m = mp_Source m @ '':'' @ mp_Destination m)
   \<and> (m \<in> set (Mounts cattrs) \<and> mp_Type m = ''bind'' \<longrightarrow>
        mp_Source m @ '':'' @ mp_Destination m \<in> set (generateVolumes cattrs createVolumes))"
proof -
  have bind: "mp_Type m = ''bind'' \<longrightarrow>
      volumeEntry createVolumes m = mp_Source m @ '':'' @ mp_Destination m"
    by (simp add: volumeEntry_def)
  have "m \<in> set (Mounts cattrs) \<Longrightarrow>
      volumeEntry createVolumes m \<in> set (generateVolumes cattrs createVolumes)"
    by (simp add: generateVolumes_sort_map)
  with bind have "m \<in> set (Mounts cattrs) \<and> mp_Type m = ''bind'' \<longrightarrow>
      mp_Source m @ '':'' @ mp_Destination m \<in> set (generateVolumes cattrs createVolumes)"
    by metis
  with bind show ?thesis
    by (simp add: generateVolumes_sort_map)
qed

theorem bind_mount_entry_sorted_witness:
  "mp_Type confMount = ''bind''
   \<and> volumeEntry False confMount = ''/etc/app:/conf''
   \<and> volumeEntry True confMount = ''/etc/app:/conf''
   \<and> sorted (generateVolumes db1JSON True)
   \<and> generateVolumes db1JSON True = ['''', ''/etc/app:/conf'', ''pgdata:/var/lib/postgresql/data'']"
  using bind_mount_entry_sorted [of db1JSON True confMount]
    bind_mount_entry_sorted [of db1JSON False confMount]
  by (simp add: generateVolumes_def dataMount_def confMount_def tmpMount_def db1JSON_def
      volumeEntry_def)

text \<open>
  Claim C9. \<open>generateVolumes\<close> returns as many entries as the container has mounts. The
  entry of a mount is empty exactly when the type of the mount is neither \<open>bind\<close> nor,
  with \<open>createVolumes\<close> enabled, \<open>volume\<close>; such a mount is not skipped, and in the sorted
  list the empty entries come first, before the sorted entries of the other mounts, none
  of which is empty.
\<close>

theorem one_entry_per_mount:
  "length (generateVolumes cattrs createVolumes) = length (Mounts cattrs)
   \<and> (volumeEntry createVolumes m = '''' \<longleftrightarrow>
        \<not> (mp_Type m = ''bind'' \<or> (mp_Type m = ''volume'' \<and> createVolumes)))
   \<and> generateVolumes cattrs createVolumes =
       replicate (length (filter (\<lambda>m. volumeEntry createVolumes m = '''') (Mounts cattrs))) ''''
       @ sort (map (volumeEntry createVolumes)
               (filter (\<lambda>m. volumeEntry createVolumes m \<noteq> '''') (Mounts cattrs)))
   \<and> '''' \<notin> volumeEntry createVolumes `
        {m \<in> set (Mounts cattrs). volumeEntry createVolumes m \<noteq> ''''}"
proof -
  let ?f = "volumeEntry createVolumes"
  let ?xs = "generateVolumes cattrs createVolumes"
  have s: "sorted ?xs" by (simp add: generateVolumes_sort_map)
  have split: "?xs = filter (\<lambda>x. x = []) ?xs @ filter (\<lambda>x. x \<noteq> []) ?xs"
    using sorted_empty_strings_first [OF s] .
  have "length (filter (\<lambda>x. x = []) ?xs) = length (filter (\<lambda>m. ?f m = []) (Mounts cattrs))"
    by (simp add: generateVolumes_sort_map filter_sort filter_map comp_def)
  then have front_part:
    "filter (\<lambda>x. x = []) ?xs = replicate (length (filter (\<lambda>m. ?f m = []) (Mounts cattrs))) []"
    using filter_eq_replicate [of "[]" ?xs] by simp
  have rest_part:
    "filter (\<lambda>x. x \<noteq> []) ?xs = sort (map ?f (filter (\<lambda>m. ?f m \<noteq> []) (Mounts cattrs)))"
    by (simp add: generateVolumes_sort_map filter_sort filter_map comp_def)
  have shape: "?xs = replicate (length (filter (\<lambda>m. ?f m = []) (Mounts cattrs))) []
      @ sort (map ?f (filter (\<lambda>m. ?f m \<noteq> []) (Mounts cattrs)))"
    using split front_part rest_part by simp
  have len: "length ?xs = length (Mounts cattrs)"
    by (simp add: generateVolumes_sort_map)
  have empty: "?f m = [] \<longleftrightarrow> \<not> (mp_Type m = ''bind'' \<or> (mp_Type m = ''volume'' \<and> createVolumes))"
    using volumeEntry_nonempty [of createVolumes m] by blast
  from shape len empty show ?thesis by auto
qed

theorem one_entry_per_mount_witness:
  "length (generateVolumes db1JSON False) = 3
   \<and> volumeEntry False tmpMount = '''' \<and> volumeEntry False dataMount = ''''
   \<and> volumeEntry True dataMount \<noteq> ''''
   \<and> generateVolumes db1JSON False = ['''', '''', ''/etc/app:/conf'']"
  using one_entry_per_mount [of db1JSON False tmpMount]
    one_entry_per_mount [of db1JSON False dataMount]
    one_entry_per_mount [of db1JSON True dataMount]
  by (simp add: dataMount_def confMount_def tmpMount_def db1JSON_def volumeEntry_def)

subsection \<open>Ignored values\<close>

lemma isIgnoredValue_VString:
  "isIgnoredValue (VString s) = Some (s \<in> {'''', ''null'', ''default'', '','', ''no''})"
  by (simp add: isIgnoredValue_def ignoreValues_def ifaceEq_def split: bool.splits)

lemma isIgnoredValue_VBool: "isIgnoredValue (VBool b) = Some False"
  by (simp add: isIgnoredValue_def ignoreValues_def ifaceEq_def)

lemma isIgnoredValue_VNamedString: "isIgnoredValue (VNamedString t s) = Some False"
  by (simp add: isIgnoredValue_def ignoreValues_def ifaceEq_def)

lemma isIgnoredValue_VStringSlice: "isIgnoredValue (VStringSlice xs) = Some False"
  by (simp add: isIgnoredValue_def ignoreValues_def ifaceEq_def)

lemma isIgnoredValue_VStrSlice: "isIgnoredValue (VStrSlice xs) = Some False"
  by (simp add: isIgnoredValue_def ignoreValues_def ifaceEq_def)

lemma isIgnoredValue_VStringMap: "isIgnoredValue (VStringMap m) = Some False"
  by (simp add: isIgnoredValue_def ignoreValues_def ifaceEq_def)

lemmas isIgnoredValue_simps =
  isIgnoredValue_VString isIgnoredValue_VBool isIgnoredValue_VNamedString
  isIgnoredValue_VStringSlice isIgnoredValue_VStrSlice isIgnoredValue_VStringMap

lemma isIgnoredValue_boxRestartName: "isIgnoredValue (boxRestartName r) \<noteq> None"
  by (cases r) (simp_all add: isIgnoredValue_simps)


subsection \<open>The loops as list functions\<close>

lemma appendMatching_filter:
  "appendMatching pk re names filtered = filtered @ filter (MatchString pk re) names"
  by (induction names arbitrary: filtered) simp_all

lemma appendNetworkNames_map:
  "appendNetworkNames networks names = names @ map nr_Name networks"
  by (induction networks arbitrary: names) simp_all

lemma mergeInto_keys: "fst ` set (mergeInto dst src) = fst ` set dst \<union> fst ` set src"
proof (induction src arbitrary: dst)
  case Nil
  then show ?case by simp
next
  case (Cons kv src)
  obtain k v where kv: "kv = (k, v)" by (cases kv)
  show ?case using Cons.IH [of "AList.update k v dst"]
    by (auto simp: kv dom_update)
qed

subsection \<open>When generate returns\<close>




subsection \<open>The loop over the containers\<close>






subsection \<open>The host-wide network export\<close>

lemma inspectNetworks_fst:
  "fst (inspectNetworks cli (networkName # rest) networks) =
     (case NetworkInspect cli networkName of
        Inl e \<Rightarrow> Err (ClientError e)
      | Inr networkResource \<Rightarrow>
          fst (inspectNetworks cli rest
                 (AList.update networkName (networkDetail networkResource) networks)))"
  by (simp add: case_prod_beta split: sum.splits)

lemma inspectNetworks_Ok:
  "fst (inspectNetworks cli names networks) = Ok r \<Longrightarrow>
     fst ` set r = fst ` set networks \<union> set names \<and>
     (\<forall>n\<in>set names. \<exists>d. NetworkInspect cli n = Inr d \<and> map_of r n = Some (networkDetail d)) \<and>
     (\<forall>k. k \<notin> set names \<longrightarrow> map_of r k = map_of networks k)"
proof (induction names arbitrary: networks)
  case Nil
  then show ?case by simp
next
  case (Cons n rest)
  show ?case
  proof (cases "NetworkInspect cli n")
    case (Inl e)
    with Cons.prems show ?thesis by (simp add: inspectNetworks_fst del: inspectNetworks.simps)
  next
    case (Inr d)
    let ?nets = "AList.update n (networkDetail d) networks"
    from Cons.prems Inr have "fst (inspectNetworks cli rest ?nets) = Ok r"
      by (simp add: inspectNetworks_fst del: inspectNetworks.simps)
    from Cons.IH [OF this] have
      keys: "fst ` set r = fst ` set ?nets \<union> set rest" and
      listed: "\<forall>m\<in>set rest. \<exists>d'. NetworkInspect cli m = Inr d' \<and> map_of r m = Some (networkDetail d')" and
      others: "\<forall>k. k \<notin> set rest \<longrightarrow> map_of r k = map_of ?nets k"
      by blast+
    have here: "\<exists>d'. NetworkInspect cli n = Inr d' \<and> map_of r n = Some (networkDetail d')"
    proof (cases "n \<in> set rest")
      case True
      with listed show ?thesis by blast
    next
      case False
      with others have "map_of r n = map_of ?nets n" by blast
      with Inr show ?thesis by (simp add: update_conv')
    qed
    have "fst ` set r = fst ` set networks \<union> set (n # rest)"
      using keys by (auto simp: dom_update)
    moreover have "\<forall>m\<in>set (n # rest).
        \<exists>d'. NetworkInspect cli m = Inr d' \<and> map_of r m = Some (networkDetail d')"
      using here listed by simp
    moreover have "\<forall>k. k \<notin> set (n # rest) \<longrightarrow> map_of r k = map_of networks k"
      using others by (simp add: update_conv')
    ultimately show ?thesis by blast
  qed
qed

lemma inspectNetworks_Err:
  "n \<in> set names \<Longrightarrow> NetworkInspect cli n = Inl e \<Longrightarrow>
     \<exists>n'\<in>set names. \<exists>e'. NetworkInspect cli n' = Inl e' \<and>
        fst (inspectNetworks cli names networks) = Err (ClientError e')"
proof (induction names arbitrary: networks)
  case Nil
  then show ?case by simp
next
  case (Cons m rest)
  show ?case
  proof (cases "NetworkInspect cli m")
    case (Inl e')
    then show ?thesis by (auto simp: inspectNetworks_fst simp del: inspectNetworks.simps)
  next
    case (Inr d)
    with Cons.prems have "n \<in> set rest" by auto
    from Cons.IH [OF this Cons.prems(2), of "AList.update m (networkDetail d) networks"] Inr
    show ?thesis
      by (auto simp: inspectNetworks_fst simp del: inspectNetworks.simps)
  qed
qed

lemma generateNetworkInfo_fst:
  "fst (generateNetworkInfo cli) =
     (case NetworkList cli of
        Inl e \<Rightarrow> Err (ClientError e)
      | Inr nets \<Rightarrow> fst (inspectNetworks cli (map nr_Name nets) []))"
  by (simp add: generateNetworkInfo_def listNetworkNames_def appendNetworkNames_map
      case_prod_beta split: sum.splits)

subsection \<open>The phases of GenerateComposeFile\<close>

lemma filterNames_cases:
  "filterNames pk containerFilter names =
     (if containerFilter = '''' then Ok names
      else case Compile pk containerFilter of
             Inl e \<Rightarrow> Err (InvalidFilterRegex e)
           | Inr re \<Rightarrow> Ok (filter (MatchString pk re) names))"
  by (simp add: filterNames_def appendMatching_filter split: sum.splits)

lemma composeConfig_fst:
  "fst (composeConfig pk cli includeAllContainers containerFilter createVolumes) =
     (case fst (listContainerNames cli) of
        Err e \<Rightarrow> Err e
      | Panic \<Rightarrow> Panic
      | Ok containerNames \<Rightarrow>
          (case filterNames pk containerFilter containerNames of
             Err e \<Rightarrow> Err e
           | Panic \<Rightarrow> Panic
           | Ok filtered \<Rightarrow>
               (case fst (processContainers pk cli createVolumes filtered ([], [], [])) of
                  None \<Rightarrow> Panic
                | Some acc \<Rightarrow>
                    if includeAllContainers then
                      (case fst (generateNetworkInfo cli) of
                         Err e \<Rightarrow> Err (NetworkInfoError (errorText e))
                       | Panic \<Rightarrow> Panic
                       | Ok hostNetworks \<Rightarrow>
                           Ok \<lparr>Version = ''3.6'', Services = fst acc,
                               Networks = hostNetworks, Volumes = snd (snd acc)\<rparr>)
                    else
                      Ok \<lparr>Version = ''3.6'', Services = fst acc, Networks = fst (snd acc),
                          Volumes = snd (snd acc)\<rparr>)))"
  by (simp add: composeConfig_def case_prod_beta
      split: outcome.splits option.splits prod.splits)

lemma composeConfig_snd:
  "snd (composeConfig pk cli includeAllContainers containerFilter createVolumes) =
     (case fst (listContainerNames cli) of
        Err e \<Rightarrow> snd (listContainerNames cli)
      | Panic \<Rightarrow> snd (listContainerNames cli)
      | Ok containerNames \<Rightarrow>
          (case filterNames pk containerFilter containerNames of
             Err e \<Rightarrow> snd (listContainerNames cli)
           | Panic \<Rightarrow> snd (listContainerNames cli)
           | Ok filtered \<Rightarrow>
               snd (listContainerNames cli) @
               snd (processContainers pk cli createVolumes filtered ([], [], [])) @
               (if includeAllContainers
                  \<and> fst (processContainers pk cli createVolumes filtered ([], [], [])) \<noteq> None
                then snd (generateNetworkInfo cli) else [])))"
  by (simp add: composeConfig_def case_prod_beta
      split: outcome.splits option.splits prod.splits)

lemma GenerateComposeFile_fst:
  "fst (GenerateComposeFile pk cli includeAllContainers containerFilter createVolumes) =
     (case fst (composeConfig pk cli includeAllContainers containerFilter createVolumes) of
        Ok config \<Rightarrow> render pk config
      | Err e \<Rightarrow> Err e
      | Panic \<Rightarrow> Panic)"
  by (simp add: GenerateComposeFile_def case_prod_beta split: outcome.splits prod.splits)

lemma GenerateComposeFile_snd:
  "snd (GenerateComposeFile pk cli includeAllContainers containerFilter createVolumes) =
     snd (composeConfig pk cli includeAllContainers containerFilter createVolumes)"
  by (simp add: GenerateComposeFile_def case_prod_beta split: outcome.splits prod.splits)

lemma listContainerNames_snd: "snd (listContainerNames cli) = [ContainerListCall]"
  by (simp add: listContainerNames_def split: sum.splits option.splits)


subsection \<open>The example host\<close>

lemma hostClient_names: "fst (listContainerNames hostClient) = Ok [''web1'', ''web2'', ''db1'']"
  by (simp add: listContainerNames_def hostClient_def hostContainers_def displayName_def)

lemma hostClient_web1:
  "fst (generate examplePackages hostClient ''web1'' True) =
     Ok ([(''web1'',
           [(''container_name'', VString ''web1''), (''image'', VString ''nginx:1.27''),
            (''labels'', VStringMap []), (''volumes'', VStringSlice []),
            (''environment'', VStringSlice []), (''command'', VStrSlice [''nginx'']),
            (''entrypoint'', VStrSlice []), (''hostname'', VString ''web''),
            (''network_mode'', VString ''bridge''), (''ports'', VStringSlice []),
            (''privileged'', VBool False),
            (''restart'', VNamedString ''container.RestartPolicyMode'' ''no''),
            (''tty'', VBool False), (''stdin_open'', VBool False)])],
         [(''bridge'', [(''external'', VBool True), (''name'', VString ''bridge'')])],
         [])"
  by (simp add: generate_def hostClient_def hostContainers_def displayName_def web1JSON_def
      webConfig_def plainHostConfig_def containerValues_def generateVolumes_def
      getNetworkMode_def getPorts_def examplePackages_def bridgeNet_def isIgnoredValue_simps)



lemma example_compile_web: "Compile examplePackages ''^web'' = Inr ''^web''"
  by (simp add: examplePackages_def literalCompile_def)

lemma example_compile_paren: "Compile examplePackages ''('' = Inl ''error parsing regexp: (''"
  by (simp add: examplePackages_def literalCompile_def)

lemma example_filter_web:
  "filter (MatchString examplePackages ''^web'') [''web1'', ''web2'', ''db1''] = [''web1'', ''web2'']"
  by (simp add: examplePackages_def literalMatch_def)

subsection \<open>The version of the document\<close>

text \<open>
  Claim C10. Whenever \<open>GenerateComposeFile\<close> succeeds, what it returns is the rendering of
  a document whose version field is the string \<open>3.6\<close>, for every client, every value of
  the two flags and every filter.
\<close>

theorem emitted_version:
  "fst (GenerateComposeFile pk cli includeAllContainers containerFilter createVolumes) = Ok out \<Longrightarrow>
     \<exists>config.
        fst (composeConfig pk cli includeAllContainers containerFilter createVolumes) = Ok config
        \<and> Version config = ''3.6'' \<and> Marshal pk config = Inr out"
proof -
  assume ok: "fst (GenerateComposeFile pk cli includeAllContainers containerFilter createVolumes) = Ok out"
  then obtain config where
    c: "fst (composeConfig pk cli includeAllContainers containerFilter createVolumes) = Ok config"
    and r: "render pk config = Ok out"
    by (auto simp: GenerateComposeFile_fst split: outcome.splits)
  from r have "Marshal pk config = Inr out"
    by (simp add: render_def split: sum.splits)
  moreover from c have "Version config = ''3.6''"
    by (auto simp: composeConfig_fst split: outcome.splits option.splits if_splits)
  ultimately show ?thesis using c by blast
qed

theorem emitted_version_witness:
  "fst (GenerateComposeFile examplePackages hostClient False '''' True) =
     Ok ''version: 3.6 services: web1 web2''
   \<and> (\<exists>config.
        fst (composeConfig examplePackages hostClient False '''' True) = Ok config
        \<and> Version config = ''3.6''
        \<and> Marshal examplePackages config = Inr ''version: 3.6 services: web1 web2'')"
proof -
  have h: "fst (GenerateComposeFile examplePackages hostClient False '''' True) =
     Ok ''version: 3.6 services: web1 web2''"
    by code_simp
  show ?thesis
    by (rule conjI [OF h emitted_version [OF h]])
qed

subsection \<open>The filter\<close>

lemma composeConfig_filtered:
  assumes n: "fst (listContainerNames cli) = Ok containerNames"
    and f: "filterNames pk containerFilter containerNames = Ok filtered"
  shows "composeConfig pk cli False containerFilter createVolumes =
     (case processContainers pk cli createVolumes filtered ([], [], []) of
        (None, evs) \<Rightarrow> (Panic, ContainerListCall # evs)
      | (Some (structure, networks, volumes), evs) \<Rightarrow>
          (Ok \<lparr>Version = ''3.6'', Services = structure, Networks = networks,
               Volumes = volumes\<rparr>,
           ContainerListCall # evs))"
proof -
  from n have "listContainerNames cli = (Ok containerNames, [ContainerListCall])"
    using listContainerNames_snd [of cli] by (simp add: prod_eq_iff)
  then show ?thesis
    by (simp add: composeConfig_def f split: prod.splits option.splits)
qed

text \<open>
  Claim C7. With a non-empty filter that compiles, the names kept by the filter block of
  \<open>GenerateComposeFile\<close> are exactly the listed display names that \<open>MatchString\<close> accepts
  for the compiled filter, in the order of the listing; the filter and the names are
  passed to the regular expression package as they are, without anchoring and without a
  change of case; the loop of \<open>GenerateComposeFile\<close> then runs over these names and
  no others. In particular, when \<open>^web\<close> compiles to an expression that matches
  \<open>web1\<close> and \<open>web2\<close> and not \<open>db1\<close>, the names kept of \<open>web1\<close>, \<open>web2\<close>, \<open>db1\<close> are
  \<open>web1\<close> and \<open>web2\<close>.
\<close>

theorem filter_inclusion:
  "(containerFilter \<noteq> '''' \<and> Compile pk containerFilter = Inr filterRegex \<longrightarrow>
      filterNames pk containerFilter containerNames =
        Ok (filter (MatchString pk filterRegex) containerNames))
   \<and> (containerFilter \<noteq> '''' \<and> Compile pk containerFilter = Inr filterRegex
        \<and> fst (listContainerNames cli) = Ok containerNames \<longrightarrow>
      composeConfig pk cli False containerFilter createVolumes =
        (case processContainers pk cli createVolumes
                (filter (MatchString pk filterRegex) containerNames) ([], [], []) of
           (None, evs) \<Rightarrow> (Panic, ContainerListCall # evs)
         | (Some (structure, networks, volumes), evs) \<Rightarrow>
             (Ok \<lparr>Version = ''3.6'', Services = structure, Networks = networks,
                  Volumes = volumes\<rparr>,
              ContainerListCall # evs)))
   \<and> (Compile pk ''^web'' = Inr webRegex \<and> MatchString pk webRegex ''web1''
        \<and> MatchString pk webRegex ''web2'' \<and> \<not> MatchString pk webRegex ''db1'' \<longrightarrow>
      filterNames pk ''^web'' [''web1'', ''web2'', ''db1''] = Ok [''web1'', ''web2''])"
proof (intro conjI impI)
  assume "containerFilter \<noteq> '''' \<and> Compile pk containerFilter = Inr filterRegex"
  then show "filterNames pk containerFilter containerNames =
        Ok (filter (MatchString pk filterRegex) containerNames)"
    by (simp add: filterNames_cases)
next
  assume a: "containerFilter \<noteq> '''' \<and> Compile pk containerFilter = Inr filterRegex
        \<and> fst (listContainerNames cli) = Ok containerNames"
  then have "filterNames pk containerFilter containerNames =
        Ok (filter (MatchString pk filterRegex) containerNames)"
    by (simp add: filterNames_cases)
  with a show "composeConfig pk cli False containerFilter createVolumes =
        (case processContainers pk cli createVolumes
                (filter (MatchString pk filterRegex) containerNames) ([], [], []) of
           (None, evs) \<Rightarrow> (Panic, ContainerListCall # evs)
         | (Some (structure, networks, volumes), evs) \<Rightarrow>
             (Ok \<lparr>Version = ''3.6'', Services = structure, Networks = networks,
                  Volumes = volumes\<rparr>,
              ContainerListCall # evs))"
    by (simp add: composeConfig_filtered)
next
  assume "Compile pk ''^web'' = Inr webRegex \<and> MatchString pk webRegex ''web1''
        \<and> MatchString pk webRegex ''web2'' \<and> \<not> MatchString pk webRegex ''db1''"
  then show "filterNames pk ''^web'' [''web1'', ''web2'', ''db1''] = Ok [''web1'', ''web2'']"
    by (simp add: filterNames_cases)
qed

theorem filter_inclusion_witness:
  "''^web'' \<noteq> '''' \<and> Compile examplePackages ''^web'' = Inr ''^web''
   \<and> fst (listContainerNames hostClient) = Ok [''web1'', ''web2'', ''db1'']
   \<and> MatchString examplePackages ''^web'' ''web1'' \<and> MatchString examplePackages ''^web'' ''web2''
   \<and> \<not> MatchString examplePackages ''^web'' ''db1''
   \<and> filterNames examplePackages ''^web'' [''web1'', ''web2'', ''db1''] = Ok [''web1'', ''web2'']
   \<and> filterNames examplePackages ''^web'' [''web1'', ''web2'', ''db1''] =
       Ok (filter (MatchString examplePackages ''^web'') [''web1'', ''web2'', ''db1''])
   \<and> composeConfig examplePackages hostClient False ''^web'' True =
       (case processContainers examplePackages hostClient True [''web1'', ''web2''] ([], [], []) of
          (None, evs) \<Rightarrow> (Panic, ContainerListCall # evs)
        | (Some (structure, networks, volumes), evs) \<Rightarrow>
            (Ok \<lparr>Version = ''3.6'', Services = structure, Networks = networks,
                 Volumes = volumes\<rparr>,
             ContainerListCall # evs))"
proof -
  have c: "Compile examplePackages ''^web'' = Inr ''^web''"
    by (rule example_compile_web)
  have m: "MatchString examplePackages ''^web'' ''web1''"
    "MatchString examplePackages ''^web'' ''web2''"
    "\<not> MatchString examplePackages ''^web'' ''db1''"
    by (simp_all add: examplePackages_def literalMatch_def)
  have n: "''^web'' \<noteq> ''''" by simp
  have l: "fst (listContainerNames hostClient) = Ok [''web1'', ''web2'', ''db1'']"
    by (rule hostClient_names)
  note inst = filter_inclusion [where containerFilter = "''^web''" and pk = examplePackages
      and filterRegex = "''^web''" and containerNames = "[''web1'', ''web2'', ''db1'']"
      and webRegex = "''^web''" and cli = hostClient and createVolumes = True]
  have g: "filterNames examplePackages ''^web'' [''web1'', ''web2'', ''db1''] =
       Ok (filter (MatchString examplePackages ''^web'') [''web1'', ''web2'', ''db1''])"
    using inst [THEN conjunct1, THEN mp, OF conjI [OF n c]] .
  have r: "filterNames examplePackages ''^web'' [''web1'', ''web2'', ''db1''] =
      Ok [''web1'', ''web2'']"
    using inst [THEN conjunct2, THEN conjunct2, THEN mp,
        OF conjI [OF c conjI [OF m(1) conjI [OF m(2) m(3)]]]] .
  have "composeConfig examplePackages hostClient False ''^web'' True =
       (case processContainers examplePackages hostClient True
               (filter (MatchString examplePackages ''^web'') [''web1'', ''web2'', ''db1''])
               ([], [], []) of
          (None, evs) \<Rightarrow> (Panic, ContainerListCall # evs)
        | (Some (structure, networks, volumes), evs) \<Rightarrow>
            (Ok \<lparr>Version = ''3.6'', Services = structure, Networks = networks,
                 Volumes = volumes\<rparr>,
             ContainerListCall # evs))"
    using inst [THEN conjunct2, THEN conjunct1, THEN mp, OF conjI [OF n conjI [OF c l]]] .
  then have p: "composeConfig examplePackages hostClient False ''^web'' True =
       (case processContainers examplePackages hostClient True [''web1'', ''web2''] ([], [], []) of
          (None, evs) \<Rightarrow> (Panic, ContainerListCall # evs)
        | (Some (structure, networks, volumes), evs) \<Rightarrow>
            (Ok \<lparr>Version = ''3.6'', Services = structure, Networks = networks,
                 Volumes = volumes\<rparr>,
             ContainerListCall # evs))"
    unfolding example_filter_web .
  show ?thesis
    by (rule conjI [OF n conjI [OF c conjI [OF l conjI [OF m(1) conjI [OF m(2) conjI [OF m(3)
          conjI [OF r conjI [OF g p]]]]]]]])
qed

text \<open>
  Claim C4, as the code has it. With a non-empty filter that does not compile,
  \<open>GenerateComposeFile\<close> never returns a document and its only query to the runtime is
  the listing of the containers: no container and no network is inspected. The listing
  comes first, so the error returned is the invalid-filter error when the listing
  succeeds.
\<close>

theorem invalid_filter_fails:
  assumes "containerFilter \<noteq> ''''" and "Compile pk containerFilter = Inl e"
  shows "snd (GenerateComposeFile pk cli includeAllContainers containerFilter createVolumes) =
           [ContainerListCall]
     \<and> (\<forall>out. fst (GenerateComposeFile pk cli includeAllContainers containerFilter createVolumes)
                 \<noteq> Ok out)
     \<and> (\<forall>names. fst (listContainerNames cli) = Ok names \<longrightarrow>
           fst (GenerateComposeFile pk cli includeAllContainers containerFilter createVolumes) =
             Err (InvalidFilterRegex e))"
proof -
  have f: "\<And>names. filterNames pk containerFilter names = Err (InvalidFilterRegex e)"
    using assms by (simp add: filterNames_cases)
  show ?thesis
    by (cases "fst (listContainerNames cli)")
      (simp_all add: GenerateComposeFile_fst GenerateComposeFile_snd composeConfig_fst
        composeConfig_snd f listContainerNames_snd)
qed

theorem invalid_filter_fails_witness:
  "''('' \<noteq> '''' \<and> Compile examplePackages ''('' = Inl ''error parsing regexp: (''
   \<and> fst (listContainerNames hostClient) = Ok [''web1'', ''web2'', ''db1'']
   \<and> GenerateComposeFile examplePackages hostClient True ''('' True =
       (Err (InvalidFilterRegex ''error parsing regexp: (''), [ContainerListCall])"
  using invalid_filter_fails [of "''(''" examplePackages "''error parsing regexp: (''" hostClient True True]
  by (simp add: example_compile_paren hostClient_names prod_eq_iff)

text \<open>
  The claim C4 as it is stated fails when the listing itself fails: the filter \<open>(\<close> does
  not compile, and the error returned is the error of the listing.
\<close>

theorem invalid_filter_listing_error:
  "''('' \<noteq> '''' \<and> Compile examplePackages ''('' = Inl ''error parsing regexp: (''
   \<and> GenerateComposeFile examplePackages downClient False ''('' True =
       (Err (ClientError ''Cannot connect to the Docker daemon''), [ContainerListCall])"
  by (simp add: example_compile_paren GenerateComposeFile_def composeConfig_def
      listContainerNames_def downClient_def)

subsection \<open>The services of the document\<close>



lemma composeConfig_Ok:
  assumes "fst (composeConfig pk cli includeAllContainers containerFilter createVolumes) = Ok config"
  shows "\<exists>names filtered acc.
     fst (listContainerNames cli) = Ok names \<and>
     filterNames pk containerFilter names = Ok filtered \<and>
     fst (processContainers pk cli createVolumes filtered ([], [], [])) = Some acc \<and>
     Version config = ''3.6'' \<and> Services config = fst acc \<and> Volumes config = snd (snd acc) \<and>
     (if includeAllContainers then fst (generateNetworkInfo cli) = Ok (Networks config)
      else Networks config = fst (snd acc))"
  using assms
  by (auto simp: composeConfig_fst split: outcome.splits option.splits if_splits)

lemma GenerateComposeFile_Ok:
  "fst (GenerateComposeFile pk cli includeAllContainers containerFilter createVolumes) = Ok out \<Longrightarrow>
     \<exists>config.
        fst (composeConfig pk cli includeAllContainers containerFilter createVolumes) = Ok config
        \<and> Marshal pk config = Inr out"
  by (auto simp: GenerateComposeFile_fst render_def split: outcome.splits sum.splits)





subsection \<open>Containers that cannot be inspected\<close>



subsection \<open>The networks of the whole host\<close>

lemma generateNetworkInfo_Ok:
  assumes "fst (generateNetworkInfo cli) = Ok hostNetworks"
  shows "\<exists>nets. NetworkList cli = Inr nets
     \<and> fst ` set hostNetworks = nr_Name ` set nets
     \<and> (\<forall>net\<in>set nets. \<exists>d. NetworkInspect cli (nr_Name net) = Inr d
            \<and> map_of hostNetworks (nr_Name net) = Some (networkDetail d))"
proof -
  from assms obtain nets where
    l: "NetworkList cli = Inr nets" and
    i: "fst (inspectNetworks cli (map nr_Name nets) []) = Ok hostNetworks"
    by (auto simp: generateNetworkInfo_fst split: sum.splits)
  from inspectNetworks_Ok [OF i] l show ?thesis by auto
qed

lemma generateNetworkInfo_Err:
  assumes "NetworkList cli = Inr nets" and "net \<in> set nets"
    and "NetworkInspect cli (nr_Name net) = Inl e"
  shows "\<exists>net'\<in>set nets. \<exists>e'. NetworkInspect cli (nr_Name net') = Inl e'
     \<and> fst (generateNetworkInfo cli) = Err (ClientError e')"
proof -
  from assms(2) have "nr_Name net \<in> set (map nr_Name nets)" by simp
  from inspectNetworks_Err [OF this assms(3), of "[]"] assms(1) show ?thesis
    by (auto simp: generateNetworkInfo_fst)
qed

lemma host_wide_detail:
  assumes ok: "fst (GenerateComposeFile pk cli True containerFilter createVolumes) = Ok out"
  shows "\<exists>config nets.
     fst (composeConfig pk cli True containerFilter createVolumes) = Ok config
     \<and> Marshal pk config = Inr out
     \<and> NetworkList cli = Inr nets
     \<and> fst ` set (Networks config) = nr_Name ` set nets
     \<and> (\<forall>net\<in>set nets. \<exists>d.
           NetworkInspect cli (nr_Name net) = Inr d
           \<and> map_of (Networks config) (nr_Name net) =
               Some [(''name'', VString (nr_Name d)), (''scope'', VString (Scope d)),
                     (''driver'', VString (Driver d)),
                     (''enable_ipv6'', VBool (EnableIPv6 d)),
                     (''internal'', VBool (Internal d)),
                     (''ipam'', VIfaceMap [(''driver'', VString (IPAM_Driver d)),
                                           (''config'', VIPAMConfigs (IPAM_Config d))])])"
proof -
  from GenerateComposeFile_Ok [OF ok] obtain config where
    c: "fst (composeConfig pk cli True containerFilter createVolumes) = Ok config"
    and m: "Marshal pk config = Inr out"
    by blast
  from composeConfig_Ok [OF c] have "fst (generateNetworkInfo cli) = Ok (Networks config)"
    by auto
  from generateNetworkInfo_Ok [OF this] obtain hostNets where
    l: "NetworkList cli = Inr hostNets" and
    k: "fst ` set (Networks config) = nr_Name ` set hostNets" and
    a: "\<forall>net\<in>set hostNets. \<exists>d. NetworkInspect cli (nr_Name net) = Inr d
          \<and> map_of (Networks config) (nr_Name net) = Some (networkDetail d)"
    by blast
  have a': "\<forall>net\<in>set hostNets. \<exists>d.
      NetworkInspect cli (nr_Name net) = Inr d
      \<and> map_of (Networks config) (nr_Name net) =
          Some [(''name'', VString (nr_Name d)), (''scope'', VString (Scope d)),
                (''driver'', VString (Driver d)),
                (''enable_ipv6'', VBool (EnableIPv6 d)),
                (''internal'', VBool (Internal d)),
                (''ipam'', VIfaceMap [(''driver'', VString (IPAM_Driver d)),
                                      (''config'', VIPAMConfigs (IPAM_Config d))])]"
    using a unfolding networkDetail_def .
  show ?thesis
    by (rule exI [of _ config], rule exI [of _ hostNets])
      (rule conjI [OF c conjI [OF m conjI [OF l conjI [OF k a']]]])
qed

lemma host_wide_abort:
  assumes failed: "NetworkList cli = Inr nets \<and> net \<in> set nets
      \<and> NetworkInspect cli (nr_Name net) = Inl e"
  shows "(\<forall>out. fst (GenerateComposeFile pk cli True containerFilter createVolumes) \<noteq> Ok out)
     \<and> (\<forall>config. fst (composeConfig pk cli False containerFilter createVolumes) = Ok config \<longrightarrow>
          (\<exists>net'\<in>set nets. \<exists>e'.
             NetworkInspect cli (nr_Name net') = Inl e'
             \<and> fst (GenerateComposeFile pk cli True containerFilter createVolumes) =
                 Err (NetworkInfoError e')))"
proof -
  from failed have f: "NetworkList cli = Inr nets" "net \<in> set nets"
    "NetworkInspect cli (nr_Name net) = Inl e"
    by simp_all
  from generateNetworkInfo_Err [OF f] obtain net' e' where
    n: "net' \<in> set nets" "NetworkInspect cli (nr_Name net') = Inl e'" and
    g: "fst (generateNetworkInfo cli) = Err (ClientError e')"
    by blast
  have never: "\<forall>out. fst (GenerateComposeFile pk cli True containerFilter createVolumes) \<noteq> Ok out"
    by (simp add: GenerateComposeFile_fst composeConfig_fst g
        split: outcome.splits option.splits)
  have "\<forall>config. fst (composeConfig pk cli False containerFilter createVolumes) = Ok config \<longrightarrow>
      fst (GenerateComposeFile pk cli True containerFilter createVolumes) =
        Err (NetworkInfoError e')"
    by (simp add: GenerateComposeFile_fst composeConfig_fst g
        split: outcome.splits option.splits)
  with n have err:
    "\<forall>config. fst (composeConfig pk cli False containerFilter createVolumes) = Ok config \<longrightarrow>
       (\<exists>net'\<in>set nets. \<exists>e'.
          NetworkInspect cli (nr_Name net') = Inl e'
          \<and> fst (GenerateComposeFile pk cli True containerFilter createVolumes) =
              Err (NetworkInfoError e'))"
    by blast
  show ?thesis
    by (rule conjI [OF never err])
qed

text \<open>
  Claim C5. With \<open>includeAllContainers\<close>, a document that is rendered has as its networks
  exactly the networks that the runtime lists, whatever the containers are attached to,
  and the entry of each is built from its inspection: its name, scope and driver, its
  enable_ipv6 and internal flags, and under ipam the driver and the config of its IPAM.
  Nothing of the stubs built for the containers is left. If the inspection of one listed
  network fails, no document is returned; the error returned is the error of the network
  export, holding the text of a failed inspection, whenever the same run without
  \<open>includeAllContainers\<close> builds a document.
\<close>

theorem host_wide_networks:
  "(fst (GenerateComposeFile pk cli True containerFilter createVolumes) = Ok out \<longrightarrow>
      (\<exists>config nets.
         fst (composeConfig pk cli True containerFilter createVolumes) = Ok config
         \<and> Marshal pk config = Inr out
         \<and> NetworkList cli = Inr nets
         \<and> fst ` set (Networks config) = nr_Name ` set nets
         \<and> (\<forall>net\<in>set nets. \<exists>d.
               NetworkInspect cli (nr_Name net) = Inr d
               \<and> map_of (Networks config) (nr_Name net) =
                   Some [(''name'', VString (nr_Name d)), (''scope'', VString (Scope d)),
                         (''driver'', VString (Driver d)),
                         (''enable_ipv6'', VBool (EnableIPv6 d)),
                         (''internal'', VBool (Internal d)),
                         (''ipam'', VIfaceMap [(''driver'', VString (IPAM_Driver d)),
                                               (''config'', VIPAMConfigs (IPAM_Config d))])])))
   \<and> (NetworkList cli = Inr nets \<and> net \<in> set nets
        \<and> NetworkInspect cli (nr_Name net) = Inl e \<longrightarrow>
        (\<forall>out. fst (GenerateComposeFile pk cli True containerFilter createVolumes) \<noteq> Ok out)
        \<and> (\<forall>config. fst (composeConfig pk cli False containerFilter createVolumes) = Ok config \<longrightarrow>
             (\<exists>net'\<in>set nets. \<exists>e'.
                NetworkInspect cli (nr_Name net') = Inl e'
                \<and> fst (GenerateComposeFile pk cli True containerFilter createVolumes) =
                    Err (NetworkInfoError e'))))"
proof (rule conjI)
  show "fst (GenerateComposeFile pk cli True containerFilter createVolumes) = Ok out \<longrightarrow>
      (\<exists>config nets.
         fst (composeConfig pk cli True containerFilter createVolumes) = Ok config
         \<and> Marshal pk config = Inr out
         \<and> NetworkList cli = Inr nets
         \<and> fst ` set (Networks config) = nr_Name ` set nets
         \<and> (\<forall>net\<in>set nets. \<exists>d.
               NetworkInspect cli (nr_Name net) = Inr d
               \<and> map_of (Networks config) (nr_Name net) =
                   Some [(''name'', VString (nr_Name d)), (''scope'', VString (Scope d)),
                         (''driver'', VString (Driver d)),
                         (''enable_ipv6'', VBool (EnableIPv6 d)),
                         (''internal'', VBool (Internal d)),
                         (''ipam'', VIfaceMap [(''driver'', VString (IPAM_Driver d)),
                                               (''config'', VIPAMConfigs (IPAM_Config d))])]))"
    by (rule impI) (rule host_wide_detail)
  show "NetworkList cli = Inr nets \<and> net \<in> set nets
        \<and> NetworkInspect cli (nr_Name net) = Inl e \<longrightarrow>
        (\<forall>out. fst (GenerateComposeFile pk cli True containerFilter createVolumes) \<noteq> Ok out)
        \<and> (\<forall>config. fst (composeConfig pk cli False containerFilter createVolumes) = Ok config \<longrightarrow>
             (\<exists>net'\<in>set nets. \<exists>e'.
                NetworkInspect cli (nr_Name net') = Inl e'
                \<and> fst (GenerateComposeFile pk cli True containerFilter createVolumes) =
                    Err (NetworkInfoError e')))"
    by (rule impI) (rule host_wide_abort)
qed

theorem host_wide_networks_witness:
  "fst (GenerateComposeFile examplePackages hostClient True '''' True) =
     Ok ''version: 3.6 services: web1 web2''
   \<and> (\<exists>config.
        fst (composeConfig examplePackages hostClient True '''' True) = Ok config
        \<and> fst ` set (Networks config) = {''bridge'', ''backend''}
        \<and> map_of (Networks config) ''backend'' =
            Some [(''name'', VString ''backend''), (''scope'', VString ''local''),
                  (''driver'', VString ''bridge''), (''enable_ipv6'', VBool False),
                  (''internal'', VBool True),
                  (''ipam'', VIfaceMap [(''driver'', VString ''default''),
                                        (''config'', VIPAMConfigs [])])])
   \<and> NetworkList brokenNetworkClient = Inr [bridgeNet, backendNet]
   \<and> NetworkInspect brokenNetworkClient ''backend'' = Inl ''network backend not found''
   \<and> fst (GenerateComposeFile examplePackages brokenNetworkClient True '''' True) =
       Err (NetworkInfoError ''network backend not found'')
   \<and> fst (GenerateComposeFile examplePackages brokenNetworkClient False '''' True) =
       Ok ''version: 3.6 services: web1 web2''"
proof -
  have h: "fst (GenerateComposeFile examplePackages hostClient True '''' True) =
     Ok ''version: 3.6 services: web1 web2''"
    by code_simp
  have nl: "NetworkList hostClient = Inr [bridgeNet, backendNet]"
    by (simp add: hostClient_def)
  have ni: "NetworkInspect hostClient ''backend'' = Inr backendNet"
    by (simp add: hostClient_def)
  from host_wide_networks [of examplePackages hostClient "''''" True, THEN conjunct1, rule_format, OF h]
  obtain config where
    c: "fst (composeConfig examplePackages hostClient True '''' True) = Ok config" and
    k: "fst ` set (Networks config) = nr_Name ` set [bridgeNet, backendNet]" and
    d: "\<exists>d. NetworkInspect hostClient (nr_Name backendNet) = Inr d
          \<and> map_of (Networks config) (nr_Name backendNet) =
              Some [(''name'', VString (nr_Name d)), (''scope'', VString (Scope d)),
                    (''driver'', VString (Driver d)),
                    (''enable_ipv6'', VBool (EnableIPv6 d)),
                    (''internal'', VBool (Internal d)),
                    (''ipam'', VIfaceMap [(''driver'', VString (IPAM_Driver d)),
                                          (''config'', VIPAMConfigs (IPAM_Config d))])]"
    using nl by auto
  have names: "nr_Name bridgeNet = ''bridge''" "nr_Name backendNet = ''backend''"
    by (simp_all add: bridgeNet_def backendNet_def)
  from k have k': "fst ` set (Networks config) = {''bridge'', ''backend''}"
    by (simp add: names)
  from d ni have "map_of (Networks config) ''backend'' =
      Some [(''name'', VString (nr_Name backendNet)), (''scope'', VString (Scope backendNet)),
            (''driver'', VString (Driver backendNet)),
            (''enable_ipv6'', VBool (EnableIPv6 backendNet)),
            (''internal'', VBool (Internal backendNet)),
            (''ipam'', VIfaceMap [(''driver'', VString (IPAM_Driver backendNet)),
                                  (''config'', VIPAMConfigs (IPAM_Config backendNet))])]"
    by (simp add: names)
  then have d': "map_of (Networks config) ''backend'' =
      Some [(''name'', VString ''backend''), (''scope'', VString ''local''),
            (''driver'', VString ''bridge''), (''enable_ipv6'', VBool False),
            (''internal'', VBool True),
            (''ipam'', VIfaceMap [(''driver'', VString ''default''),
                                  (''config'', VIPAMConfigs [])])]"
    by (simp add: backendNet_def)
  have a: "\<exists>config.
        fst (composeConfig examplePackages hostClient True '''' True) = Ok config
        \<and> fst ` set (Networks config) = {''bridge'', ''backend''}
        \<and> map_of (Networks config) ''backend'' =
            Some [(''name'', VString ''backend''), (''scope'', VString ''local''),
                  (''driver'', VString ''bridge''), (''enable_ipv6'', VBool False),
                  (''internal'', VBool True),
                  (''ipam'', VIfaceMap [(''driver'', VString ''default''),
                                        (''config'', VIPAMConfigs [])])]"
    by (rule exI [of _ config]) (rule conjI [OF c conjI [OF k' d']])
  have bl: "NetworkList brokenNetworkClient = Inr [bridgeNet, backendNet]"
    by (simp add: brokenNetworkClient_def hostClient_def)
  have bi: "NetworkInspect brokenNetworkClient ''backend'' = Inl ''network backend not found''"
    by (simp add: brokenNetworkClient_def)
  have be: "fst (GenerateComposeFile examplePackages brokenNetworkClient True '''' True) =
       Err (NetworkInfoError ''network backend not found'')"
    by code_simp
  have bo: "fst (GenerateComposeFile examplePackages brokenNetworkClient False '''' True) =
       Ok ''version: 3.6 services: web1 web2''"
    by code_simp
  show ?thesis
    by (rule conjI [OF h conjI [OF a conjI [OF bl conjI [OF bi conjI [OF be bo]]]]])
qed

subsection \<open>Values that are kept\<close>

lemma update_fresh: "k \<notin> fst ` set al \<Longrightarrow> AList.update k v al = al @ [(k, v)]"
  by (induction al) auto

lemma dropIgnored_filter:
  "distinct (map fst kvs) \<Longrightarrow> fst ` set kvs \<inter> fst ` set ct = {} \<Longrightarrow>
   \<forall>kv\<in>set kvs. isIgnoredValue (snd kv) \<noteq> None \<Longrightarrow>
     dropIgnored kvs ct = Some (ct @ filter (\<lambda>kv. isIgnoredValue (snd kv) = Some False) kvs)"
proof (induction kvs arbitrary: ct)
  case Nil
  then show ?case by simp
next
  case (Cons kv kvs)
  obtain k v where kv: "kv = (k, v)" by (cases kv)
  from Cons.prems(3) kv obtain ignored where i: "isIgnoredValue v = Some ignored"
    by auto
  show ?case
  proof (cases ignored)
    case True
    from Cons.prems have "dropIgnored kvs ct =
        Some (ct @ filter (\<lambda>kv. isIgnoredValue (snd kv) = Some False) kvs)"
      by (intro Cons.IH) auto
    with True i kv show ?thesis by simp
  next
    case False
    from Cons.prems kv have fresh: "k \<notin> fst ` set ct" by auto
    from Cons.prems kv have "dropIgnored kvs (ct @ [(k, v)]) =
        Some ((ct @ [(k, v)]) @ filter (\<lambda>kv. isIgnoredValue (snd kv) = Some False) kvs)"
      by (intro Cons.IH) auto
    with False i kv fresh show ?thesis by (simp add: update_fresh)
  qed
qed

text \<open>
  The record of a container holds the values on which \<open>isIgnoredValue\<close> is false, under
  their keys and unchanged.
\<close>

lemma dropIgnored_containerValues_eq:
  "dropIgnored (containerValues pk cattrs createVolumes name) [] =
     Some (filter (\<lambda>kv. isIgnoredValue (snd kv) = Some False)
             (containerValues pk cattrs createVolumes name))"
proof -
  have "dropIgnored (containerValues pk cattrs createVolumes name) [] =
     Some ([] @ filter (\<lambda>kv. isIgnoredValue (snd kv) = Some False)
             (containerValues pk cattrs createVolumes name))"
  proof (rule dropIgnored_filter)
    show "distinct (map fst (containerValues pk cattrs createVolumes name))"
      by (simp add: containerValues_def)
    show "fst ` set (containerValues pk cattrs createVolumes name) \<inter> fst ` set [] = {}"
      by simp
    show "\<forall>kv\<in>set (containerValues pk cattrs createVolumes name). isIgnoredValue (snd kv) \<noteq> None"
      using isIgnoredValue_boxRestartName [of "RestartPolicy_Name (HostConfig cattrs)"]
      by (auto simp: containerValues_def isIgnoredValue_simps)
  qed
  then show ?thesis by simp
qed

text \<open>
  On the values of a container, \<open>isIgnoredValue\<close> is true for the five sentinel strings
  only: a list, a mapping and a flag are never ignored, nor is a restart policy of the
  defined type \<open>RestartPolicyMode\<close>.
\<close>

lemma isIgnoredValue_containerValues:
  "(k, v) \<in> set (containerValues pk cattrs createVolumes name) \<Longrightarrow>
     isIgnoredValue v =
       Some (\<exists>s. v = VString s \<and> s \<in> {'''', ''null'', ''default'', '','', ''no''})"
  by (cases "RestartPolicy_Name (HostConfig cattrs)")
    (auto simp: containerValues_def isIgnoredValue_simps)

text \<open>
  Claim C1 at a container without labels, mounts, environment variables and published
  ports, with the restart policy \<open>no\<close> and the flags unset. The empty strings are
  dropped, but the empty lists and the empty mapping are kept: \<open>ignoreValues\<close> holds the
  empty \<open>[]interface{}\<close> and the empty \<open>map[string]interface{}\<close>, whose dynamic types no
  attribute value has. The restart policy \<open>no\<close> is kept too: its dynamic type is
  \<open>RestartPolicyMode\<close>, not the \<open>string\<close> of the sentinel. The record has fourteen keys.
\<close>

theorem empty_lists_are_kept:
  "Labels (Config web1JSON) = [] \<and> Env (Config web1JSON) = [] \<and> Mounts web1JSON = []
   \<and> PortBindings (HostConfig web1JSON) = []
   \<and> isIgnoredValue (VStringMap []) = Some False
   \<and> isIgnoredValue (VStringSlice []) = Some False
   \<and> isIgnoredValue (VStrSlice []) = Some False
   \<and> RestartPolicy_Name (HostConfig web1JSON) = RestartPolicyMode ''no''
   \<and> isIgnoredValue (boxRestartName (RestartPolicyMode ''no'')) = Some False
   \<and> fst (generate examplePackages hostClient ''web1'' True) =
     Ok ([(''web1'',
           [(''container_name'', VString ''web1''), (''image'', VString ''nginx:1.27''),
            (''labels'', VStringMap []), (''volumes'', VStringSlice []),
            (''environment'', VStringSlice []), (''command'', VStrSlice [''nginx'']),
            (''entrypoint'', VStrSlice []), (''hostname'', VString ''web''),
            (''network_mode'', VString ''bridge''), (''ports'', VStringSlice []),
            (''privileged'', VBool False),
            (''restart'', VNamedString ''container.RestartPolicyMode'' ''no''),
            (''tty'', VBool False), (''stdin_open'', VBool False)])],
         [(''bridge'', [(''external'', VBool True), (''name'', VString ''bridge'')])],
         [])"
  by (simp add: hostClient_web1 isIgnoredValue_simps web1JSON_def webConfig_def
      plainHostConfig_def)

end
